theory Spec2Isabelle
  imports Main
begin

section \<open>Object versioning helpers of the S3 API layer (lib/api/apiUtils/object/versioning.js)\<close>

subsection \<open>Values\<close>

text \<open>
  Free-form data (a data location, an array of locations, a timestamp string) is a
  JavaScript value as \<^verbatim>\<open>JSON.parse\<close> produces it, plus \<^verbatim>\<open>undefined\<close> for a property
  that is not there. Numbers are mathematical integers: every quantity below is a whole
  number of milliseconds or days, on which doubles are exact up to \<open>2 ^ 53\<close>.
\<close>

datatype jsval =
    Undefined
  | Null
  | Bool bool
  | Num int
  | Str string
  | Arr "jsval list"
  | Obj "(string \<times> jsval) list"

text \<open>The truthiness test of \<^verbatim>\<open>if (v)\<close>, \<^verbatim>\<open>!v\<close> and \<^verbatim>\<open>v || w\<close>.\<close>

fun truthy :: "jsval \<Rightarrow> bool" where
  "truthy Undefined = False"
| "truthy Null = False"
| "truthy (Bool b) = b"
| "truthy (Num n) = (n \<noteq> 0)"
| "truthy (Str s) = (s \<noteq> [])"
| "truthy (Arr xs) = True"
| "truthy (Obj fs) = True"

fun isArray :: "jsval \<Rightarrow> bool" where
  "isArray (Arr xs) = True"
| "isArray v = False"

text \<open>
  Identifier properties (\<^verbatim>\<open>versionId\<close>, \<^verbatim>\<open>uploadId\<close>, ...) are strings or undefined and
  flags are booleans or undefined, as the JSDoc of the source declares them;
  \<open>None\<close> is \<^verbatim>\<open>undefined\<close> (reading a property that is absent gives the same).
  A string is truthy when it is not empty, a flag when it is \<^verbatim>\<open>true\<close>.
\<close>

definition truthy_str :: "string option \<Rightarrow> bool" where
  "truthy_str s = (s \<noteq> None \<and> s \<noteq> Some [])"

definition truthy_flag :: "bool option \<Rightarrow> bool" where
  "truthy_flag b = (b = Some True)"

subsection \<open>Object metadata, master state and option bundles\<close>

text \<open>The archive part of an object's metadata (\<^verbatim>\<open>objMD.archive\<close>).\<close>

record archive =
  ar_archiveInfo :: jsval
  ar_restoreRequestedAt :: jsval
  ar_restoreRequestedDays :: "int option"

text \<open>
  The object metadata record \<^verbatim>\<open>objMD\<close>; \<open>md_creation_time\<close> and \<open>md_last_modified\<close>
  are the properties \<^verbatim>\<open>'creation-time'\<close> and \<^verbatim>\<open>'last-modified'\<close>.
\<close>

record objectMD =
  md_versionId :: "string option"
  md_uploadId :: "string option"
  md_isNull :: "bool option"
  md_nullVersionId :: "string option"
  md_nullUploadId :: "string option"
  md_location :: jsval
  md_creation_time :: jsval
  md_last_modified :: jsval
  md_archive :: "archive option"

text \<open>The state of the master version, as \<^verbatim>\<open>getMasterState\<close> returns it.\<close>

record masterState =
  mst_exists :: "bool option"
  mst_versionId :: "string option"
  mst_uploadId :: "string option"
  mst_isNull :: "bool option"
  mst_nullVersionId :: "string option"
  mst_nullUploadId :: "string option"
  mst_objLocation :: jsval

text \<open>
  The option bundles handed to the metadata layer and to the write path
  (\<^verbatim>\<open>options\<close>, \<^verbatim>\<open>storeOptions\<close>, \<^verbatim>\<open>delOptions\<close>, \<^verbatim>\<open>params\<close>) are plain objects built
  from \<^verbatim>\<open>{}\<close> by assignments; one record carries every property the source assigns.
\<close>

record mdOptions =
  versionId :: "string option"
  isNull :: "bool option"
  versioning :: "bool option"
  nullVersionId :: "string option"
  nullUploadId :: "string option"
  dataToDelete :: jsval
  replayId :: "string option"
  deleteData :: "bool option"

text \<open>The empty object \<^verbatim>\<open>{}\<close> as an option bundle and as a master state.\<close>

definition emptyOptions :: mdOptions where
  "emptyOptions =
     \<lparr>versionId = None, isNull = None, versioning = None, nullVersionId = None,
      nullUploadId = None, dataToDelete = Undefined, replayId = None, deleteData = None\<rparr>"

definition emptyMasterState :: masterState where
  "emptyMasterState =
     \<lparr>mst_exists = None, mst_versionId = None, mst_uploadId = None, mst_isNull = None,
      mst_nullVersionId = None, mst_nullUploadId = None, mst_objLocation = Undefined\<rparr>"

text \<open>The result object of \<^verbatim>\<open>processVersioningState\<close>.\<close>

record versioningState =
  options :: mdOptions
  storeOptions :: "mdOptions option"
  delOptions :: "mdOptions option"

subsection \<open>getMasterState\<close>

text \<open>\<^verbatim>\<open>Array.isArray(l) ? l : [l]\<close>, used for a location in two places.\<close>

definition locationArray :: "jsval \<Rightarrow> jsval" where
  "locationArray l = (if isArray l then l else Arr [l])"

definition getMasterState :: "objectMD option \<Rightarrow> masterState" where
  "getMasterState objMD =
     (case objMD of
        None \<Rightarrow> emptyMasterState
      | Some md \<Rightarrow>
          (let mst = \<lparr>mst_exists = Some True,
                      mst_versionId = md_versionId md,
                      mst_uploadId = md_uploadId md,
                      mst_isNull = md_isNull md,
                      mst_nullVersionId = md_nullVersionId md,
                      mst_nullUploadId = md_nullUploadId md,
                      mst_objLocation = Undefined\<rparr>
           in if truthy (md_location md)
              then mst\<lparr>mst_objLocation := locationArray (md_location md)\<rparr>
              else mst))"

subsection \<open>processVersioningState\<close>

text \<open>
  \<open>nonVersionedObjId\<close> is the module constant
  \<^verbatim>\<open>versionIdUtils.getInfVid(config.replicationGroupId)\<close>, computed by Arsenal from the
  configuration; it is a parameter here.
\<close>

definition processVersioningState ::
  "string \<Rightarrow> masterState \<Rightarrow> string option \<Rightarrow> versioningState" where
  "processVersioningState nonVersionedObjId mst vstat =
     (if mst_versionId mst = None \<or> truthy_flag (mst_isNull mst) then
        (if vstat = Some ''Suspended'' then
           (let opts = emptyOptions\<lparr>versionId := Some [], isNull := Some True,
                                     dataToDelete := mst_objLocation mst\<rparr>
            in if truthy_flag (mst_isNull mst) then
                 (let del = emptyOptions\<lparr>versionId := mst_versionId mst\<rparr>;
                      del = (if truthy_str (mst_uploadId mst)
                             then del\<lparr>replayId := mst_uploadId mst\<rparr> else del)
                  in \<lparr>options = opts, storeOptions = None, delOptions = Some del\<rparr>)
               else \<lparr>options = opts, storeOptions = None, delOptions = None\<rparr>)
         else
           (let opts = emptyOptions\<lparr>versioning := Some True\<rparr>
            in if truthy_flag (mst_exists mst) then
                 (let vid = (if truthy_flag (mst_isNull mst)
                             then mst_versionId mst else Some nonVersionedObjId);
                      sto = emptyOptions\<lparr>versionId := vid, isNull := Some True\<rparr>;
                      opts = opts\<lparr>nullVersionId := vid\<rparr>;
                      opts = (if truthy_flag (mst_isNull mst) \<and> truthy_str (mst_uploadId mst)
                              then opts\<lparr>nullUploadId := mst_uploadId mst\<rparr> else opts)
                  in \<lparr>options = opts, storeOptions = Some sto, delOptions = None\<rparr>)
               else \<lparr>options = opts, storeOptions = None, delOptions = None\<rparr>))
      else
        (let nvid = mst_nullVersionId mst in
         if vstat = Some ''Suspended'' then
           (let opts = emptyOptions\<lparr>versionId := Some [], isNull := Some True\<rparr>
            in if nvid = None then
                 \<lparr>options = opts, storeOptions = None, delOptions = None\<rparr>
               else
                 (let del = emptyOptions\<lparr>versionId := nvid\<rparr>;
                      del = (if truthy_str (mst_nullUploadId mst)
                             then del\<lparr>replayId := mst_nullUploadId mst\<rparr> else del)
                  in \<lparr>options = opts, storeOptions = None, delOptions = Some del\<rparr>))
         else
           (let opts = emptyOptions\<lparr>versioning := Some True, nullVersionId := nvid\<rparr>;
                opts = (if truthy_str (mst_nullUploadId mst)
                        then opts\<lparr>nullUploadId := mst_nullUploadId mst\<rparr> else opts)
            in \<lparr>options = opts, storeOptions = None, delOptions = None\<rparr>)))"

subsection \<open>Collaborators: errors, bucket configuration, the metadata layer\<close>

text \<open>
  Arsenal's error objects by kind; \<^verbatim>\<open>err.is.NoSuchKey\<close> holds exactly of the kind
  \<open>NoSuchKey\<close>, and \<^verbatim>\<open>customizeDescription\<close> keeps the kind and sets the text.
\<close>

datatype arsenal_error =
    NoSuchKey
  | InternalError
  | InvalidArgument string
  | OtherError string

text \<open>
  The bucket's versioning configuration is what \<^verbatim>\<open>bucketMD.getVersioningConfiguration()\<close>
  returns: an object with a \<^verbatim>\<open>Status\<close>, or nothing when versioning was never configured.
\<close>

record versioningConfiguration =
  Status :: "string option"

record bucketInfo =
  getVersioningConfiguration :: "versioningConfiguration option"

text \<open>
  The metadata layer (\<^verbatim>\<open>metadata/wrapper\<close>) is outside this module: its three operations
  are parameters, acting on a backend state \<open>'s\<close> and answering the callback with an
  error or a result. Every call made is appended to a log, so that what a function asked
  of the metadata layer can be stated. The request logger is left out.
\<close>

datatype md_call =
    PutObjectMD string string objectMD mdOptions
  | GetObjectMD string string mdOptions
  | DeleteObjectMD string string mdOptions

record 's metadata =
  putObjectMD :: "string \<Rightarrow> string \<Rightarrow> objectMD \<Rightarrow> mdOptions \<Rightarrow> 's \<Rightarrow> arsenal_error option \<times> 's"
  getObjectMD :: "string \<Rightarrow> string \<Rightarrow> mdOptions \<Rightarrow> 's \<Rightarrow> (arsenal_error + objectMD) \<times> 's"
  deleteObjectMD :: "string \<Rightarrow> string \<Rightarrow> mdOptions \<Rightarrow> 's \<Rightarrow> arsenal_error option \<times> 's"

type_synonym 's world = "'s \<times> md_call list"

definition metadata_putObjectMD ::
  "'s metadata \<Rightarrow> string \<Rightarrow> string \<Rightarrow> objectMD \<Rightarrow> mdOptions \<Rightarrow> 's world
   \<Rightarrow> arsenal_error option \<times> 's world" where
  "metadata_putObjectMD M bucketName objKey objMD opts w =
     (case putObjectMD M bucketName objKey objMD opts (fst w) of
        (err, s') \<Rightarrow> (err, (s', snd w @ [PutObjectMD bucketName objKey objMD opts])))"

definition metadata_getObjectMD ::
  "'s metadata \<Rightarrow> string \<Rightarrow> string \<Rightarrow> mdOptions \<Rightarrow> 's world
   \<Rightarrow> (arsenal_error + objectMD) \<times> 's world" where
  "metadata_getObjectMD M bucketName objKey opts w =
     (case getObjectMD M bucketName objKey opts (fst w) of
        (res, s') \<Rightarrow> (res, (s', snd w @ [GetObjectMD bucketName objKey opts])))"

definition metadata_deleteObjectMD ::
  "'s metadata \<Rightarrow> string \<Rightarrow> string \<Rightarrow> mdOptions \<Rightarrow> 's world
   \<Rightarrow> arsenal_error option \<times> 's world" where
  "metadata_deleteObjectMD M bucketName objKey opts w =
     (case deleteObjectMD M bucketName objKey opts (fst w) of
        (err, s') \<Rightarrow> (err, (s', snd w @ [DeleteObjectMD bucketName objKey opts])))"

subsection \<open>Storing and deleting the null version's metadata\<close>

text \<open>
  A callback \<^verbatim>\<open>cb(err, value)\<close> is the pair of the error (or none) and the value,
  returned with the world the calls left behind. The module's private functions
  \<^verbatim>\<open>_storeNullVersionMD\<close>, \<^verbatim>\<open>_getNullVersionsToDelete\<close> and \<^verbatim>\<open>_deleteNullVersionMD\<close>
  keep their names without the leading underscore.
\<close>

definition storeNullVersionMD ::
  "'s metadata \<Rightarrow> string \<Rightarrow> string \<Rightarrow> objectMD \<Rightarrow> mdOptions \<Rightarrow> 's world
   \<Rightarrow> (arsenal_error option \<times> mdOptions) \<times> 's world" where
  "storeNullVersionMD M bucketName objKey objMD opts w =
     (case metadata_putObjectMD M bucketName objKey objMD opts w of
        (err, w') \<Rightarrow> ((err, opts), w'))"

definition getNullVersionsToDelete ::
  "'s metadata \<Rightarrow> string \<Rightarrow> string \<Rightarrow> mdOptions \<Rightarrow> masterState \<Rightarrow> 's world
   \<Rightarrow> (arsenal_error option \<times> jsval) \<times> 's world" where
  "getNullVersionsToDelete M bucketName objKey opts mst w =
     (if versionId opts = mst_versionId mst then
        ((None, mst_objLocation mst), w)
      else
        (case metadata_getObjectMD M bucketName objKey opts w of
           (Inl err, w') \<Rightarrow> ((Some err, Undefined), w')
         | (Inr versionMD, w') \<Rightarrow>
             if \<not> truthy (md_location versionMD) then ((None, Undefined), w')
             else ((None, locationArray (md_location versionMD)), w')))"

definition deleteNullVersionMD ::
  "'s metadata \<Rightarrow> string \<Rightarrow> string \<Rightarrow> mdOptions \<Rightarrow> masterState \<Rightarrow> 's world
   \<Rightarrow> (arsenal_error option \<times> jsval) \<times> 's world" where
  "deleteNullVersionMD M bucketName objKey opts mst w =
     (case getNullVersionsToDelete M bucketName objKey opts mst w of
        ((Some err, _), w') \<Rightarrow> ((Some err, Undefined), w')
      | ((None, nullDataToDelete), w') \<Rightarrow>
          (case metadata_deleteObjectMD M bucketName objKey opts w' of
             (Some err, w'') \<Rightarrow> ((Some err, Undefined), w'')
           | (None, w'') \<Rightarrow> ((None, nullDataToDelete), w'')))"

subsection \<open>versioningPreprocessing\<close>

text \<open>
  \<^verbatim>\<open>async.series\<close>: the tasks run in order, each on the state the previous one left;
  the first error ends the series and no later task runs.
\<close>

fun series :: "('st \<Rightarrow> arsenal_error option \<times> 'st) list \<Rightarrow> 'st \<Rightarrow> arsenal_error option \<times> 'st" where
  "series [] st = (None, st)"
| "series (task # tasks) st =
     (case task st of
        (Some err, st') \<Rightarrow> (Some err, st')
      | (None, st') \<Rightarrow> series tasks st')"

definition emptyObjectMD :: objectMD where
  "emptyObjectMD =
     \<lparr>md_versionId = None, md_uploadId = None, md_isNull = None, md_nullVersionId = None,
      md_nullUploadId = None, md_location = Undefined, md_creation_time = Undefined,
      md_last_modified = Undefined, md_archive = None\<rparr>"

text \<open>
  \<^verbatim>\<open>Object.assign({}, objMD, storeOptions)\<close>: a copy of the metadata (of \<^verbatim>\<open>{}\<close> when
  there is none) with the two properties that \<^verbatim>\<open>storeOptions\<close> is built with.
\<close>

definition assignStoreOptions :: "objectMD option \<Rightarrow> mdOptions \<Rightarrow> objectMD" where
  "assignStoreOptions objMD sto =
     (case objMD of None \<Rightarrow> emptyObjectMD | Some md \<Rightarrow> md)
       \<lparr>md_versionId := versionId sto, md_isNull := isNull sto\<rparr>"

text \<open>
  The two tasks of the series. The state they share is the \<^verbatim>\<open>options\<close> object, which
  the second task updates in place, and the world.
\<close>

definition storeVersion ::
  "'s metadata \<Rightarrow> string \<Rightarrow> string \<Rightarrow> objectMD option \<Rightarrow> mdOptions option
   \<Rightarrow> mdOptions \<times> 's world \<Rightarrow> arsenal_error option \<times> (mdOptions \<times> 's world)" where
  "storeVersion M bucketName objectKey objMD sto st =
     (case sto of
        None \<Rightarrow> (None, st)
      | Some so \<Rightarrow>
          (let versionMD = assignStoreOptions objMD so;
               params = emptyOptions\<lparr>versionId := versionId so\<rparr>
           in case storeNullVersionMD M bucketName objectKey versionMD params (snd st) of
                ((err, _), w') \<Rightarrow> (err, (fst st, w'))))"

definition deleteNullVersion ::
  "'s metadata \<Rightarrow> string \<Rightarrow> string \<Rightarrow> mdOptions option \<Rightarrow> masterState
   \<Rightarrow> mdOptions \<times> 's world \<Rightarrow> arsenal_error option \<times> (mdOptions \<times> 's world)" where
  "deleteNullVersion M bucketName objectKey del mst st =
     (case del of
        None \<Rightarrow> (None, st)
      | Some d \<Rightarrow>
          (case deleteNullVersionMD M bucketName objectKey d mst (snd st) of
             ((Some err, _), w') \<Rightarrow>
               if err = NoSuchKey then (None, (fst st, w'))
               else (Some InternalError, (fst st, w'))
           | ((None, nullDataToDelete), w') \<Rightarrow>
               (None, ((fst st)\<lparr>dataToDelete := nullDataToDelete\<rparr>, w'))))"

definition versioningPreprocessing ::
  "string \<Rightarrow> 's metadata \<Rightarrow> string \<Rightarrow> bucketInfo \<Rightarrow> string \<Rightarrow> objectMD option \<Rightarrow> 's world
   \<Rightarrow> (arsenal_error option \<times> mdOptions) \<times> 's world" where
  "versioningPreprocessing nonVersionedObjId M bucketName bucketMD objectKey objMD w =
     (let mst = getMasterState objMD in
      case getVersioningConfiguration bucketMD of
        None \<Rightarrow> ((None, emptyOptions\<lparr>dataToDelete := mst_objLocation mst\<rparr>), w)
      | Some vCfg \<Rightarrow>
          (let r = processVersioningState nonVersionedObjId mst (Status vCfg) in
           case series [storeVersion M bucketName objectKey objMD (storeOptions r),
                        deleteNullVersion M bucketName objectKey (delOptions r) mst]
                       (options r, w) of
             (err, (opts, w')) \<Rightarrow> ((err, opts), w')))"

subsection \<open>preprocessingVersioningDelete\<close>

text \<open>
  The callback is called either with \<^verbatim>\<open>(null, options)\<close> or with an error alone: the
  result is the error or the options. The object metadata is an object here, as the
  JSDoc declares it: the function reads its properties without a test.
\<close>

definition preprocessingVersioningDelete ::
  "string \<Rightarrow> bucketInfo \<Rightarrow> objectMD \<Rightarrow> string option \<Rightarrow> arsenal_error + mdOptions" where
  "preprocessingVersioningDelete bucketName bucketMD objMD reqVersionId =
     (if getVersioningConfiguration bucketMD = None then
        Inr (emptyOptions\<lparr>deleteData := Some True\<rparr>)
      else if truthy_str reqVersionId \<and> reqVersionId \<noteq> Some ''null'' then
        (let opts = emptyOptions\<lparr>deleteData := Some True, versionId := reqVersionId\<rparr>
         in Inr (if truthy_str (md_uploadId objMD)
                 then opts\<lparr>replayId := md_uploadId objMD\<rparr> else opts))
      else if truthy_str reqVersionId then
        (if md_versionId objMD = None then
           Inr (emptyOptions\<lparr>deleteData := Some True\<rparr>)
         else if truthy_flag (md_isNull objMD) then
           (let opts = emptyOptions\<lparr>deleteData := Some True,
                                     versionId := md_versionId objMD, isNull := Some True\<rparr>
            in Inr (if truthy_str (md_uploadId objMD)
                    then opts\<lparr>replayId := md_uploadId objMD\<rparr> else opts))
         else if truthy_str (md_nullVersionId objMD) then
           (let opts = emptyOptions\<lparr>deleteData := Some True,
                                     versionId := md_nullVersionId objMD\<rparr>
            in Inr (if truthy_str (md_nullUploadId objMD)
                    then opts\<lparr>replayId := md_nullUploadId objMD\<rparr> else opts))
         else Inl NoSuchKey)
      else Inr emptyOptions)"

subsection \<open>overwritingVersioning\<close>

text \<open>
  A \<^verbatim>\<open>Date\<close> object by its time value in milliseconds. \<^verbatim>\<open>new Date(t)\<close> is an invalid
  date when \<open>t\<close> is \<^verbatim>\<open>NaN\<close> or lies outside the range of time values, 8.64e15 ms either
  side of the epoch.
\<close>

datatype jsdate = Date int | InvalidDate

definition newDate :: "int \<Rightarrow> jsdate" where
  "newDate t = (if \<bar>t\<bar> \<le> 8640000000000000 then Date t else InvalidDate)"

definition oneDay :: int where
  "oneDay = 24 * 60 * 60 * 1000"

text \<open>The \<^verbatim>\<open>archive\<close> object written into the store parameters.\<close>

record paramsArchive =
  archiveInfo :: jsval
  restoreRequestedAt :: jsval
  restoreRequestedDays :: "int option"
  restoreCompletedAt :: jsdate
  restoreWillExpireAt :: jsdate

text \<open>
  The caller's \<^verbatim>\<open>metadataStoreParams\<close>: the four properties the function assigns; the
  caller's other properties are the record's extension and stay as they are.
\<close>

record metadataStoreParams =
  creationTime :: jsval
  lastModifiedDate :: jsval
  updateMicroVersionId :: "bool option"
  archive :: "paramsArchive option"

text \<open>
  \<open>now\<close> is the value of \<^verbatim>\<open>Date.now()\<close>. With no \<^verbatim>\<open>restoreRequestedDays\<close> the product
  \<^verbatim>\<open>days * oneDay\<close> is \<^verbatim>\<open>NaN\<close> and the expiry date is invalid. The function returns
  the options and leaves the parameters updated.
\<close>

definition overwritingVersioning ::
  "objectMD \<Rightarrow> 'a metadataStoreParams_scheme \<Rightarrow> int
   \<Rightarrow> mdOptions \<times> 'a metadataStoreParams_scheme" where
  "overwritingVersioning objMD metadataStoreParams now =
     (let days = (case md_archive objMD of None \<Rightarrow> None
                  | Some a \<Rightarrow> ar_restoreRequestedDays a);
          params = metadataStoreParams
            \<lparr>creationTime := md_creation_time objMD,
             lastModifiedDate := md_last_modified objMD,
             updateMicroVersionId := Some True,
             archive := Some
               \<lparr>archiveInfo = (case md_archive objMD of None \<Rightarrow> Undefined
                                | Some a \<Rightarrow> ar_archiveInfo a),
                restoreRequestedAt = (case md_archive objMD of None \<Rightarrow> Undefined
                                      | Some a \<Rightarrow> ar_restoreRequestedAt a),
                restoreRequestedDays = days,
                restoreCompletedAt = newDate now,
                restoreWillExpireAt = (case days of None \<Rightarrow> InvalidDate
                                       | Some d \<Rightarrow> newDate (now + d * oneDay))\<rparr>\<rparr>;
          vid = (if truthy_str (md_versionId objMD) then md_versionId objMD else None);
          opts = emptyOptions\<lparr>versionId := vid, isNull := md_isNull objMD,
                              nullVersionId := md_nullVersionId objMD\<rparr>
      in (opts, params))"

subsection \<open>decodeVID and decodeVersionId\<close>

text \<open>
  The version-identifier codec \<^verbatim>\<open>versionIdUtils.decode\<close> belongs to Arsenal and is a
  parameter: on a string it throws, returns an \<^verbatim>\<open>Error\<close>, or returns the decoded
  identifier.
\<close>

datatype decode_result = Throws | ReturnsError | Decoded string

definition invalidErr :: arsenal_error where
  "invalidErr = InvalidArgument ''Invalid version id specified''"

definition decodeVID :: "(string \<Rightarrow> decode_result) \<Rightarrow> string \<Rightarrow> arsenal_error + string" where
  "decodeVID decode vid =
     (if vid = ''null'' then Inr vid
      else (case decode vid of
              Throws \<Rightarrow> Inl invalidErr
            | ReturnsError \<Rightarrow> Inl invalidErr
            | Decoded decoded \<Rightarrow> Inr decoded))"

text \<open>
  The request query is a dictionary of the query parameters, or absent. The result is
  an error, \<^verbatim>\<open>undefined\<close> (\<open>Inr None\<close>) or the decoded identifier.
\<close>

definition decodeVersionId ::
  "(string \<Rightarrow> decode_result) \<Rightarrow> (string \<rightharpoonup> string) option \<Rightarrow> arsenal_error + string option" where
  "decodeVersionId decode reqQuery =
     (case reqQuery of
        None \<Rightarrow> Inr None
      | Some q \<Rightarrow>
          (case q ''versionId'' of
             None \<Rightarrow> Inr None
           | Some vid \<Rightarrow>
               if vid = [] then Inr None
               else (case decodeVID decode vid of
                       Inl err \<Rightarrow> Inl err
                     | Inr decoded \<Rightarrow> Inr (Some decoded))))"

subsection \<open>Example inputs\<close>

text \<open>
  A metadata layer that answers every put, get and delete the same way, four object
  records (one that predates versioning, one that is a null version, one that is a
  version with a reference to the null version \<^verbatim>\<open>V0\<close>, and the record of that null
  version) and two buckets.
\<close>

definition constMetadata ::
  "arsenal_error option \<Rightarrow> arsenal_error + objectMD \<Rightarrow> arsenal_error option \<Rightarrow> unit metadata" where
  "constMetadata p g d =
     \<lparr>putObjectMD = (\<lambda>bucketName objKey objMD opts s. (p, s)),
      getObjectMD = (\<lambda>bucketName objKey opts s. (g, s)),
      deleteObjectMD = (\<lambda>bucketName objKey opts s. (d, s))\<rparr>"

definition plainMD :: objectMD where
  "plainMD =
     \<lparr>md_versionId = None, md_uploadId = None, md_isNull = None,
      md_nullVersionId = None, md_nullUploadId = None,
      md_location = Obj [(''key'', Str ''d1'')], md_creation_time = Str ''t0'',
      md_last_modified = Str ''t1'', md_archive = None\<rparr>"

definition nullMasterMD :: objectMD where
  "nullMasterMD = plainMD\<lparr>md_versionId := Some ''V1'', md_isNull := Some True\<rparr>"

definition versionedMD :: objectMD where
  "versionedMD = plainMD\<lparr>md_versionId := Some ''V2'', md_nullVersionId := Some ''V0''\<rparr>"

definition oldNullMD :: objectMD where
  "oldNullMD = plainMD\<lparr>md_versionId := Some ''V0'', md_isNull := Some True,
                        md_location := Obj [(''key'', Str ''n1'')]\<rparr>"

definition suspendedBucket :: bucketInfo where
  "suspendedBucket = \<lparr>getVersioningConfiguration = Some \<lparr>Status = Some ''Suspended''\<rparr>\<rparr>"

definition enabledBucket :: bucketInfo where
  "enabledBucket = \<lparr>getVersioningConfiguration = Some \<lparr>Status = Some ''Enabled''\<rparr>\<rparr>"

definition archivedMD :: objectMD where
  "archivedMD = nullMasterMD
     \<lparr>md_archive := Some \<lparr>ar_archiveInfo = Obj [(''archiveId'', Str ''a1'')],
                           ar_restoreRequestedAt = Str ''t2'',
                           ar_restoreRequestedDays = Some 7\<rparr>\<rparr>"

definition emptyParams :: metadataStoreParams where
  "emptyParams = \<lparr>creationTime = Undefined, lastModifiedDate = Undefined,
                  updateMicroVersionId = None, archive = None\<rparr>"

section \<open>Properties\<close>

lemmas example_defs = constMetadata_def plainMD_def nullMasterMD_def versionedMD_def
  oldNullMD_def suspendedBucket_def enabledBucket_def

lemmas model_defs = getMasterState_def processVersioningState_def emptyOptions_def
  emptyMasterState_def locationArray_def truthy_str_def truthy_flag_def Let_def

lemmas effect_defs = versioningPreprocessing_def storeVersion_def deleteNullVersion_def
  deleteNullVersionMD_def getNullVersionsToDelete_def storeNullVersionMD_def
  metadata_putObjectMD_def metadata_getObjectMD_def metadata_deleteObjectMD_def
  assignStoreOptions_def emptyObjectMD_def

subsection \<open>The master state\<close>

text \<open>
  Claim C7. With no record \<^verbatim>\<open>getMasterState\<close> returns the empty object: every property
  reads as undefined. With a record, \<^verbatim>\<open>exists\<close> is true and the five identifier
  properties are copied as they are. A location that is there (a truthy value: a
  location object or an array) is normalised: a single value becomes the one-element
  array of it, an array is kept unchanged. With no location (absent, or \<^verbatim>\<open>null\<close>, or
  another falsy value) \<^verbatim>\<open>objLocation\<close> is not set.
\<close>

theorem getMasterState_normalises:
  "getMasterState None =
     \<lparr>mst_exists = None, mst_versionId = None, mst_uploadId = None, mst_isNull = None,
      mst_nullVersionId = None, mst_nullUploadId = None, mst_objLocation = Undefined\<rparr>
   \<and> mst_exists (getMasterState (Some md)) = Some True
   \<and> mst_versionId (getMasterState (Some md)) = md_versionId md
   \<and> mst_uploadId (getMasterState (Some md)) = md_uploadId md
   \<and> mst_isNull (getMasterState (Some md)) = md_isNull md
   \<and> mst_nullVersionId (getMasterState (Some md)) = md_nullVersionId md
   \<and> mst_nullUploadId (getMasterState (Some md)) = md_nullUploadId md
   \<and> (truthy (md_location md) \<and> \<not> isArray (md_location md) \<longrightarrow>
        mst_objLocation (getMasterState (Some md)) = Arr [md_location md])
   \<and> (isArray (md_location md) \<longrightarrow>
        mst_objLocation (getMasterState (Some md)) = md_location md)
   \<and> (\<not> truthy (md_location md) \<longrightarrow>
        mst_objLocation (getMasterState (Some md)) = Undefined)"
  by (cases "md_location md")
     (simp_all add: getMasterState_def emptyMasterState_def locationArray_def Let_def)

text \<open>
  C7 at three records: a single location object, an array of two, and \<^verbatim>\<open>null\<close>.
\<close>

theorem getMasterState_normalises_witness:
  "getMasterState (Some plainMD) =
     \<lparr>mst_exists = Some True, mst_versionId = None, mst_uploadId = None, mst_isNull = None,
      mst_nullVersionId = None, mst_nullUploadId = None,
      mst_objLocation = Arr [Obj [(''key'', Str ''d1'')]]\<rparr>
   \<and> mst_objLocation (getMasterState
        (Some (plainMD\<lparr>md_location := Arr [Obj [(''key'', Str ''d1'')], Obj [(''key'', Str ''d2'')]]\<rparr>))) =
       Arr [Obj [(''key'', Str ''d1'')], Obj [(''key'', Str ''d2'')]]
   \<and> mst_objLocation (getMasterState (Some (plainMD\<lparr>md_location := Null\<rparr>))) = Undefined"
  using getMasterState_normalises[of plainMD]
    getMasterState_normalises[of "plainMD\<lparr>md_location := Arr [Obj [(''key'', Str ''d1'')], Obj [(''key'', Str ''d2'')]]\<rparr>"]
    getMasterState_normalises[of "plainMD\<lparr>md_location := Null\<rparr>"]
  by (simp add: plainMD_def)

subsection \<open>The decision for a put\<close>

text \<open>
  Claim C1. When the master has no \<^verbatim>\<open>versionId\<close> or is a null version and the bucket is
  suspended, the options are exactly \<^verbatim>\<open>versionId: ''\<close>, \<^verbatim>\<open>isNull: true\<close> and
  \<^verbatim>\<open>dataToDelete\<close> the master's \<^verbatim>\<open>objLocation\<close>; there are no \<^verbatim>\<open>storeOptions\<close>;
  \<^verbatim>\<open>delOptions\<close> is returned exactly when the master is a null version, and then
  carries the master's \<^verbatim>\<open>versionId\<close>, and the master's \<^verbatim>\<open>uploadId\<close> as \<^verbatim>\<open>replayId\<close>
  when there is one (a non-empty string) and nothing else.
\<close>

theorem suspended_overwrites_null_or_absent_master:
  assumes "mst_versionId mst = None \<or> truthy_flag (mst_isNull mst)"
  shows "options (processVersioningState nv mst (Some ''Suspended'')) =
           emptyOptions\<lparr>versionId := Some [], isNull := Some True,
                        dataToDelete := mst_objLocation mst\<rparr>
         \<and> storeOptions (processVersioningState nv mst (Some ''Suspended'')) = None
         \<and> (truthy_flag (mst_isNull mst) \<longrightarrow>
              delOptions (processVersioningState nv mst (Some ''Suspended'')) =
                Some (emptyOptions\<lparr>versionId := mst_versionId mst,
                        replayId := (if truthy_str (mst_uploadId mst)
                                     then mst_uploadId mst else None)\<rparr>))
         \<and> (\<not> truthy_flag (mst_isNull mst) \<longrightarrow>
              delOptions (processVersioningState nv mst (Some ''Suspended'')) = None)"
  using assms by (auto simp: processVersioningState_def Let_def emptyOptions_def)

text \<open>
  C1 at a null-version master with an upload id, and at a master that predates
  versioning.
\<close>

theorem suspended_overwrites_null_or_absent_master_witness:
  "processVersioningState ''inf''
       (getMasterState (Some (nullMasterMD\<lparr>md_uploadId := Some ''U1''\<rparr>))) (Some ''Suspended'') =
     \<lparr>options = emptyOptions\<lparr>versionId := Some [], isNull := Some True,
                  dataToDelete := Arr [Obj [(''key'', Str ''d1'')]]\<rparr>,
      storeOptions = None,
      delOptions = Some (emptyOptions\<lparr>versionId := Some ''V1'', replayId := Some ''U1''\<rparr>)\<rparr>
   \<and> processVersioningState ''inf'' (getMasterState (Some plainMD)) (Some ''Suspended'') =
     \<lparr>options = emptyOptions\<lparr>versionId := Some [], isNull := Some True,
                  dataToDelete := Arr [Obj [(''key'', Str ''d1'')]]\<rparr>,
      storeOptions = None, delOptions = None\<rparr>"
proof -
  have h1: "mst_versionId (getMasterState (Some (nullMasterMD\<lparr>md_uploadId := Some ''U1''\<rparr>))) = None
            \<or> truthy_flag (mst_isNull (getMasterState (Some (nullMasterMD\<lparr>md_uploadId := Some ''U1''\<rparr>))))"
    by (simp add: example_defs model_defs)
  have h2: "mst_versionId (getMasterState (Some plainMD)) = None
            \<or> truthy_flag (mst_isNull (getMasterState (Some plainMD)))"
    by (simp add: example_defs model_defs)
  show ?thesis
    using suspended_overwrites_null_or_absent_master[OF h1, of "''inf''"]
      suspended_overwrites_null_or_absent_master[OF h2, of "''inf''"]
    by (simp add: example_defs model_defs versioningState.equality)
qed

text \<open>
  Claim C2. When the master has no \<^verbatim>\<open>versionId\<close> or is a null version and the bucket is
  enabled, the options ask for a new version. If the master exists, \<^verbatim>\<open>storeOptions\<close>
  is exactly \<^verbatim>\<open>isNull: true\<close> with, as \<^verbatim>\<open>versionId\<close>, the master's own when the master is
  a null version and the reserved identifier \<open>nv\<close> otherwise; the same identifier is
  \<^verbatim>\<open>options.nullVersionId\<close>; \<^verbatim>\<open>options.nullUploadId\<close> is the master's \<^verbatim>\<open>uploadId\<close> when
  the master is a null version that has one, and is not set otherwise. If no master
  exists there are no \<^verbatim>\<open>storeOptions\<close>. No \<^verbatim>\<open>delOptions\<close> is returned either way.
\<close>

theorem enabled_stores_null_or_absent_master:
  assumes "mst_versionId mst = None \<or> truthy_flag (mst_isNull mst)"
  shows "versioning (options (processVersioningState nv mst (Some ''Enabled''))) = Some True
         \<and> (truthy_flag (mst_exists mst) \<longrightarrow>
              storeOptions (processVersioningState nv mst (Some ''Enabled'')) =
                Some (emptyOptions\<lparr>versionId := (if truthy_flag (mst_isNull mst)
                                                  then mst_versionId mst else Some nv),
                                    isNull := Some True\<rparr>)
              \<and> nullVersionId (options (processVersioningState nv mst (Some ''Enabled''))) =
                  (if truthy_flag (mst_isNull mst) then mst_versionId mst else Some nv)
              \<and> nullUploadId (options (processVersioningState nv mst (Some ''Enabled''))) =
                  (if truthy_flag (mst_isNull mst) \<and> truthy_str (mst_uploadId mst)
                   then mst_uploadId mst else None))
         \<and> (\<not> truthy_flag (mst_exists mst) \<longrightarrow>
              storeOptions (processVersioningState nv mst (Some ''Enabled'')) = None)
         \<and> delOptions (processVersioningState nv mst (Some ''Enabled'')) = None"
  using assms by (auto simp: processVersioningState_def Let_def emptyOptions_def)

text \<open>
  C2 at a master that predates versioning, at a null-version master with an upload
  id, and with no master.
\<close>

theorem enabled_stores_null_or_absent_master_witness:
  "processVersioningState ''inf'' (getMasterState (Some plainMD)) (Some ''Enabled'') =
     \<lparr>options = emptyOptions\<lparr>versioning := Some True, nullVersionId := Some ''inf''\<rparr>,
      storeOptions = Some (emptyOptions\<lparr>versionId := Some ''inf'', isNull := Some True\<rparr>),
      delOptions = None\<rparr>
   \<and> processVersioningState ''inf''
       (getMasterState (Some (nullMasterMD\<lparr>md_uploadId := Some ''U1''\<rparr>))) (Some ''Enabled'') =
     \<lparr>options = emptyOptions\<lparr>versioning := Some True, nullVersionId := Some ''V1'',
                  nullUploadId := Some ''U1''\<rparr>,
      storeOptions = Some (emptyOptions\<lparr>versionId := Some ''V1'', isNull := Some True\<rparr>),
      delOptions = None\<rparr>
   \<and> processVersioningState ''inf'' (getMasterState None) (Some ''Enabled'') =
     \<lparr>options = emptyOptions\<lparr>versioning := Some True\<rparr>, storeOptions = None, delOptions = None\<rparr>"
proof -
  have h1: "mst_versionId (getMasterState (Some plainMD)) = None
            \<or> truthy_flag (mst_isNull (getMasterState (Some plainMD)))"
    by (simp add: example_defs model_defs)
  have h2: "mst_versionId (getMasterState (Some (nullMasterMD\<lparr>md_uploadId := Some ''U1''\<rparr>))) = None
            \<or> truthy_flag (mst_isNull (getMasterState (Some (nullMasterMD\<lparr>md_uploadId := Some ''U1''\<rparr>))))"
    by (simp add: example_defs model_defs)
  have h3: "mst_versionId (getMasterState None) = None
            \<or> truthy_flag (mst_isNull (getMasterState None))"
    by (simp add: example_defs model_defs)
  show ?thesis
    using enabled_stores_null_or_absent_master[OF h1, of "''inf''"]
      enabled_stores_null_or_absent_master[OF h2, of "''inf''"]
      enabled_stores_null_or_absent_master[OF h3, of "''inf''"]
    by (simp add: example_defs model_defs versioningState.equality)
qed

text \<open>
  Claim C9. Whatever the master state and the bucket's status, the result of
  \<^verbatim>\<open>processVersioningState\<close> never has both \<^verbatim>\<open>storeOptions\<close> and \<^verbatim>\<open>delOptions\<close>.
\<close>

theorem store_and_delete_exclusive:
  "storeOptions (processVersioningState nv mst vstat) = None
   \<or> delOptions (processVersioningState nv mst vstat) = None"
  by (simp add: processVersioningState_def Let_def)

subsection \<open>Carrying the decision out\<close>

text \<open>
  What \<^verbatim>\<open>processVersioningState\<close> returns together with \<^verbatim>\<open>delOptions\<close>, and what
  \<^verbatim>\<open>versioningPreprocessing\<close> then reduces to.
\<close>

lemma delOptions_options:
  "delOptions (processVersioningState nv mst vstat) = Some d \<Longrightarrow>
   storeOptions (processVersioningState nv mst vstat) = None
   \<and> options (processVersioningState nv mst vstat) =
       emptyOptions\<lparr>versionId := Some [], isNull := Some True,
                    dataToDelete := (if truthy_flag (mst_isNull mst)
                                     then mst_objLocation mst else Undefined)\<rparr>"
  by (auto simp: processVersioningState_def Let_def emptyOptions_def split: if_splits)

lemma delOptions_versionId:
  "delOptions (processVersioningState nv mst vstat) = Some d \<Longrightarrow>
   truthy_flag (mst_isNull mst) \<Longrightarrow> versionId d = mst_versionId mst"
  by (auto simp: processVersioningState_def Let_def emptyOptions_def split: if_splits)

lemma versioningPreprocessing_del:
  assumes "getVersioningConfiguration bucketMD = Some vCfg"
    and "delOptions (processVersioningState nv (getMasterState objMD) (Status vCfg)) = Some d"
  shows "versioningPreprocessing nv M bucketName bucketMD objectKey objMD w =
     (case deleteNullVersion M bucketName objectKey (Some d) (getMasterState objMD)
             (options (processVersioningState nv (getMasterState objMD) (Status vCfg)), w) of
        (err, (opts, w')) \<Rightarrow> ((err, opts), w'))"
  using assms delOptions_options[OF assms(2)]
  by (simp add: versioningPreprocessing_def Let_def storeVersion_def split: prod.splits option.splits)

text \<open>
  What \<^verbatim>\<open>_deleteNullVersionMD\<close> answers, from what the metadata layer answers: when the
  version to delete is the master's own there is no read; otherwise the read comes
  first and the delete follows only if the read succeeds.
\<close>

lemma deleteNullVersionMD_same_id:
  assumes "versionId d = mst_versionId mst"
    and "deleteObjectMD M bucketName objKey d (fst w) = (e, s')"
  shows "deleteNullVersionMD M bucketName objKey d mst w =
           ((e, case e of None \<Rightarrow> mst_objLocation mst | Some err \<Rightarrow> Undefined),
            (s', snd w @ [DeleteObjectMD bucketName objKey d]))"
  using assms
  by (simp add: deleteNullVersionMD_def getNullVersionsToDelete_def metadata_deleteObjectMD_def
           split: option.splits)

lemma deleteNullVersionMD_read_fails:
  assumes "versionId d \<noteq> mst_versionId mst"
    and "getObjectMD M bucketName objKey d (fst w) = (Inl err, s')"
  shows "deleteNullVersionMD M bucketName objKey d mst w =
           ((Some err, Undefined), (s', snd w @ [GetObjectMD bucketName objKey d]))"
  using assms
  by (simp add: deleteNullVersionMD_def getNullVersionsToDelete_def metadata_getObjectMD_def)

lemma deleteNullVersionMD_read_ok:
  assumes "versionId d \<noteq> mst_versionId mst"
    and "getObjectMD M bucketName objKey d (fst w) = (Inr versionMD, s')"
    and "deleteObjectMD M bucketName objKey d s' = (e, s'')"
  shows "deleteNullVersionMD M bucketName objKey d mst w =
           ((e, case e of
                  None \<Rightarrow> (if truthy (md_location versionMD)
                            then locationArray (md_location versionMD) else Undefined)
                | Some err \<Rightarrow> Undefined),
            (s'', snd w @ [GetObjectMD bucketName objKey d, DeleteObjectMD bucketName objKey d]))"
  using assms
  by (simp add: deleteNullVersionMD_def getNullVersionsToDelete_def metadata_getObjectMD_def
           metadata_deleteObjectMD_def split: option.splits)

lemma series_store_fails:
  assumes "putObjectMD M bucketName objectKey (assignStoreOptions objMD so)
             (emptyOptions\<lparr>versionId := versionId so\<rparr>) (fst w) = (Some err, s')"
  shows "series [storeVersion M bucketName objectKey objMD (Some so),
                 deleteNullVersion M bucketName objectKey del mst] (opts, w) =
           (Some err, (opts, (s', snd w @ [PutObjectMD bucketName objectKey
              (assignStoreOptions objMD so) (emptyOptions\<lparr>versionId := versionId so\<rparr>)])))"
  using assms
  by (simp add: storeVersion_def storeNullVersionMD_def metadata_putObjectMD_def Let_def)

text \<open>
  Claim C4. If the decision has \<^verbatim>\<open>storeOptions\<close> and storing the null version fails with
  an error, \<^verbatim>\<open>versioningPreprocessing\<close> calls back with that error; the only call made to
  the metadata layer is that put, and the world is as the put left it. The series itself
  stops there for any options object, any \<^verbatim>\<open>delOptions\<close> and any master state: the delete
  task is not run.
\<close>

theorem store_failure_stops_series:
  assumes "getVersioningConfiguration bucketMD = Some vCfg"
    and "storeOptions (processVersioningState nv (getMasterState objMD) (Status vCfg)) = Some so"
    and "putObjectMD M bucketName objectKey (assignStoreOptions objMD so)
           (emptyOptions\<lparr>versionId := versionId so\<rparr>) (fst w) = (Some err, s')"
  shows "versioningPreprocessing nv M bucketName bucketMD objectKey objMD w =
           ((Some err, options (processVersioningState nv (getMasterState objMD) (Status vCfg))),
            (s', snd w @ [PutObjectMD bucketName objectKey (assignStoreOptions objMD so)
                            (emptyOptions\<lparr>versionId := versionId so\<rparr>)]))
         \<and> (\<forall>opts del mst.
               series [storeVersion M bucketName objectKey objMD (Some so),
                       deleteNullVersion M bucketName objectKey del mst] (opts, w) =
                 (Some err, (opts, (s', snd w @ [PutObjectMD bucketName objectKey
                    (assignStoreOptions objMD so) (emptyOptions\<lparr>versionId := versionId so\<rparr>)]))))"
  using assms(1,2) series_store_fails[OF assms(3)]
  by (simp add: versioningPreprocessing_def Let_def)

text \<open>
  C4 at a master that predates versioning in an enabled bucket, with a metadata layer
  whose put fails; and the series alone with a \<^verbatim>\<open>delOptions\<close> that is there.
\<close>

theorem store_failure_stops_series_witness:
  "versioningPreprocessing ''inf'' (constMetadata (Some (OtherError ''ServiceUnavailable'')) (Inr plainMD) None)
       ''b'' enabledBucket ''k'' (Some plainMD) ((), []) =
     ((Some (OtherError ''ServiceUnavailable''),
       emptyOptions\<lparr>versioning := Some True, nullVersionId := Some ''inf''\<rparr>),
      ((), [PutObjectMD ''b'' ''k'' (plainMD\<lparr>md_versionId := Some ''inf'', md_isNull := Some True\<rparr>)
              (emptyOptions\<lparr>versionId := Some ''inf''\<rparr>)]))
   \<and> series [storeVersion (constMetadata (Some (OtherError ''ServiceUnavailable'')) (Inr plainMD) None)
                ''b'' ''k'' (Some plainMD)
                (Some (emptyOptions\<lparr>versionId := Some ''inf'', isNull := Some True\<rparr>)),
              deleteNullVersion (constMetadata (Some (OtherError ''ServiceUnavailable'')) (Inr plainMD) None)
                ''b'' ''k'' (Some (emptyOptions\<lparr>versionId := Some ''V0''\<rparr>))
                (getMasterState (Some plainMD))]
        (emptyOptions, ((), [])) =
     (Some (OtherError ''ServiceUnavailable''),
      (emptyOptions,
       ((), [PutObjectMD ''b'' ''k'' (plainMD\<lparr>md_versionId := Some ''inf'', md_isNull := Some True\<rparr>)
               (emptyOptions\<lparr>versionId := Some ''inf''\<rparr>)])))"
proof -
  let ?so = "emptyOptions\<lparr>versionId := Some ''inf'', isNull := Some True\<rparr>"
  let ?M = "constMetadata (Some (OtherError ''ServiceUnavailable'')) (Inr plainMD) None"
  have cfg: "getVersioningConfiguration enabledBucket = Some \<lparr>Status = Some ''Enabled''\<rparr>"
    by (simp add: enabledBucket_def)
  have sto: "storeOptions (processVersioningState ''inf'' (getMasterState (Some plainMD))
               (Status \<lparr>Status = Some ''Enabled''\<rparr>)) = Some ?so"
    by (simp add: example_defs model_defs)
  have put: "putObjectMD ?M ''b'' ''k'' (assignStoreOptions (Some plainMD) ?so)
               (emptyOptions\<lparr>versionId := versionId ?so\<rparr>) (fst ((), [])) =
             (Some (OtherError ''ServiceUnavailable''), ())"
    by (simp add: constMetadata_def)
  show ?thesis
    using store_failure_stops_series[OF cfg sto put]
    by (simp add: example_defs model_defs assignStoreOptions_def)
qed

text \<open>
  Claim C3, amended. When the decision has \<^verbatim>\<open>delOptions\<close> and the metadata layer fails
  with a \<^verbatim>\<open>NoSuchKey\<close> error while the null version is cleaned up (the delete of the
  version, with or without a read before it, or the read itself, after which no delete
  is made), \<^verbatim>\<open>versioningPreprocessing\<close> succeeds and returns the options as
  \<^verbatim>\<open>processVersioningState\<close> decided them, with nothing from the clean-up merged in:
  \<^verbatim>\<open>dataToDelete\<close> is not set when the master is a version that is not null, and is still
  the master's \<^verbatim>\<open>objLocation\<close> when the master is itself the null version. Any other
  error of the metadata layer there is reported as \<^verbatim>\<open>InternalError\<close>, with the same
  options. The calls made are the ones up to the failing one, and the world is as that
  call left it.
\<close>

theorem cleanup_failure_outcome:
  assumes "getVersioningConfiguration bucketMD = Some vCfg"
    and "delOptions (processVersioningState nv (getMasterState objMD) (Status vCfg)) = Some d"
  shows "(versionId d = mst_versionId (getMasterState objMD)
            \<and> deleteObjectMD M bucketName objectKey d (fst w) = (Some err, s')
          \<longrightarrow> versioningPreprocessing nv M bucketName bucketMD objectKey objMD w =
                ((if err = NoSuchKey then None else Some InternalError,
                  options (processVersioningState nv (getMasterState objMD) (Status vCfg))),
                 (s', snd w @ [DeleteObjectMD bucketName objectKey d])))
         \<and> (versionId d \<noteq> mst_versionId (getMasterState objMD)
            \<and> getObjectMD M bucketName objectKey d (fst w) = (Inl err, s')
          \<longrightarrow> versioningPreprocessing nv M bucketName bucketMD objectKey objMD w =
                ((if err = NoSuchKey then None else Some InternalError,
                  options (processVersioningState nv (getMasterState objMD) (Status vCfg))),
                 (s', snd w @ [GetObjectMD bucketName objectKey d])))
         \<and> (versionId d \<noteq> mst_versionId (getMasterState objMD)
            \<and> getObjectMD M bucketName objectKey d (fst w) = (Inr versionMD, s')
            \<and> deleteObjectMD M bucketName objectKey d s' = (Some err, s'')
          \<longrightarrow> versioningPreprocessing nv M bucketName bucketMD objectKey objMD w =
                ((if err = NoSuchKey then None else Some InternalError,
                  options (processVersioningState nv (getMasterState objMD) (Status vCfg))),
                 (s'', snd w @ [GetObjectMD bucketName objectKey d,
                                DeleteObjectMD bucketName objectKey d])))
         \<and> options (processVersioningState nv (getMasterState objMD) (Status vCfg)) =
             emptyOptions\<lparr>versionId := Some [], isNull := Some True,
                          dataToDelete := (if truthy_flag (mst_isNull (getMasterState objMD))
                                           then mst_objLocation (getMasterState objMD)
                                           else Undefined)\<rparr>"
proof (intro conjI impI)
  note vp = versioningPreprocessing_del[OF assms, of M bucketName objectKey w]
  let ?r = "processVersioningState nv (getMasterState objMD) (Status vCfg)"
  {
    assume "versionId d = mst_versionId (getMasterState objMD)
            \<and> deleteObjectMD M bucketName objectKey d (fst w) = (Some err, s')"
    then have "deleteNullVersionMD M bucketName objectKey d (getMasterState objMD) w =
                 ((Some err, Undefined), (s', snd w @ [DeleteObjectMD bucketName objectKey d]))"
      using deleteNullVersionMD_same_id[of d "getMasterState objMD" M bucketName objectKey w "Some err" s']
      by simp
    then show "versioningPreprocessing nv M bucketName bucketMD objectKey objMD w =
                ((if err = NoSuchKey then None else Some InternalError, options ?r),
                 (s', snd w @ [DeleteObjectMD bucketName objectKey d]))"
      by (simp add: vp deleteNullVersion_def)
  }
  {
    assume "versionId d \<noteq> mst_versionId (getMasterState objMD)
            \<and> getObjectMD M bucketName objectKey d (fst w) = (Inl err, s')"
    then have "deleteNullVersionMD M bucketName objectKey d (getMasterState objMD) w =
                 ((Some err, Undefined), (s', snd w @ [GetObjectMD bucketName objectKey d]))"
      using deleteNullVersionMD_read_fails[of d "getMasterState objMD" M bucketName objectKey w err s']
      by simp
    then show "versioningPreprocessing nv M bucketName bucketMD objectKey objMD w =
                ((if err = NoSuchKey then None else Some InternalError, options ?r),
                 (s', snd w @ [GetObjectMD bucketName objectKey d]))"
      by (simp add: vp deleteNullVersion_def)
  }
  {
    assume "versionId d \<noteq> mst_versionId (getMasterState objMD)
            \<and> getObjectMD M bucketName objectKey d (fst w) = (Inr versionMD, s')
            \<and> deleteObjectMD M bucketName objectKey d s' = (Some err, s'')"
    then have "deleteNullVersionMD M bucketName objectKey d (getMasterState objMD) w =
                 ((Some err, Undefined),
                  (s'', snd w @ [GetObjectMD bucketName objectKey d,
                                 DeleteObjectMD bucketName objectKey d]))"
      using deleteNullVersionMD_read_ok[of d "getMasterState objMD" M bucketName objectKey w
              versionMD s' "Some err" s'']
      by simp
    then show "versioningPreprocessing nv M bucketName bucketMD objectKey objMD w =
                ((if err = NoSuchKey then None else Some InternalError, options ?r),
                 (s'', snd w @ [GetObjectMD bucketName objectKey d,
                                DeleteObjectMD bucketName objectKey d]))"
      by (simp add: vp deleteNullVersion_def)
  }
  show "options ?r =
          emptyOptions\<lparr>versionId := Some [], isNull := Some True,
                       dataToDelete := (if truthy_flag (mst_isNull (getMasterState objMD))
                                        then mst_objLocation (getMasterState objMD)
                                        else Undefined)\<rparr>"
    using delOptions_options[OF assms(2)] by simp
qed

text \<open>
  The amended C3 at a versioned master that refers to the null version \<^verbatim>\<open>V0\<close>: the read
  of \<^verbatim>\<open>V0\<close> succeeds and its delete fails with \<^verbatim>\<open>NoSuchKey\<close> (success, no data to
  delete); the read of \<^verbatim>\<open>V0\<close> fails with \<^verbatim>\<open>NoSuchKey\<close> (success, no delete made); the
  delete fails with another error (\<^verbatim>\<open>InternalError\<close>). And at a null-version master
  whose delete fails with another error: \<^verbatim>\<open>InternalError\<close>, no read made.
\<close>

theorem cleanup_failure_outcome_witness:
  "versioningPreprocessing ''inf'' (constMetadata None (Inr plainMD) (Some NoSuchKey))
       ''b'' suspendedBucket ''k'' (Some versionedMD) ((), []) =
     ((None, emptyOptions\<lparr>versionId := Some [], isNull := Some True\<rparr>),
      ((), [GetObjectMD ''b'' ''k'' (emptyOptions\<lparr>versionId := Some ''V0''\<rparr>),
            DeleteObjectMD ''b'' ''k'' (emptyOptions\<lparr>versionId := Some ''V0''\<rparr>)]))
   \<and> versioningPreprocessing ''inf'' (constMetadata None (Inl NoSuchKey) None)
       ''b'' suspendedBucket ''k'' (Some versionedMD) ((), []) =
     ((None, emptyOptions\<lparr>versionId := Some [], isNull := Some True\<rparr>),
      ((), [GetObjectMD ''b'' ''k'' (emptyOptions\<lparr>versionId := Some ''V0''\<rparr>)]))
   \<and> versioningPreprocessing ''inf''
       (constMetadata None (Inr plainMD) (Some (OtherError ''ServiceUnavailable'')))
       ''b'' suspendedBucket ''k'' (Some versionedMD) ((), []) =
     ((Some InternalError, emptyOptions\<lparr>versionId := Some [], isNull := Some True\<rparr>),
      ((), [GetObjectMD ''b'' ''k'' (emptyOptions\<lparr>versionId := Some ''V0''\<rparr>),
            DeleteObjectMD ''b'' ''k'' (emptyOptions\<lparr>versionId := Some ''V0''\<rparr>)]))
   \<and> versioningPreprocessing ''inf''
       (constMetadata None (Inr plainMD) (Some (OtherError ''ServiceUnavailable'')))
       ''b'' suspendedBucket ''k'' (Some nullMasterMD) ((), []) =
     ((Some InternalError,
       emptyOptions\<lparr>versionId := Some [], isNull := Some True,
                    dataToDelete := Arr [Obj [(''key'', Str ''d1'')]]\<rparr>),
      ((), [DeleteObjectMD ''b'' ''k'' (emptyOptions\<lparr>versionId := Some ''V1''\<rparr>)]))"
proof -
  let ?dn = "emptyOptions\<lparr>versionId := Some ''V0''\<rparr>"
  let ?dm = "emptyOptions\<lparr>versionId := Some ''V1''\<rparr>"
  let ?sus = "\<lparr>Status = Some ''Suspended''\<rparr>"
  let ?Mrace = "constMetadata None (Inr plainMD) (Some NoSuchKey)"
  let ?Mgone = "constMetadata None (Inl NoSuchKey) None"
  let ?Mdown = "constMetadata None (Inr plainMD) (Some (OtherError ''ServiceUnavailable''))"
  have cfg: "getVersioningConfiguration suspendedBucket = Some ?sus"
    by (simp add: suspendedBucket_def)
  have deln: "delOptions (processVersioningState ''inf'' (getMasterState (Some versionedMD))
                (Status ?sus)) = Some ?dn"
    by (simp add: example_defs model_defs)
  have delm: "delOptions (processVersioningState ''inf'' (getMasterState (Some nullMasterMD))
                (Status ?sus)) = Some ?dm"
    by (simp add: example_defs model_defs)
  have ne: "versionId ?dn \<noteq> mst_versionId (getMasterState (Some versionedMD))"
    by (simp add: example_defs model_defs)
  have same: "versionId ?dm = mst_versionId (getMasterState (Some nullMasterMD))"
    by (simp add: example_defs model_defs)
  have optn: "options (processVersioningState ''inf'' (getMasterState (Some versionedMD))
                (Status ?sus)) = emptyOptions\<lparr>versionId := Some [], isNull := Some True\<rparr>"
    by (simp add: example_defs model_defs)
  have optm: "options (processVersioningState ''inf'' (getMasterState (Some nullMasterMD))
                (Status ?sus)) =
              emptyOptions\<lparr>versionId := Some [], isNull := Some True,
                           dataToDelete := Arr [Obj [(''key'', Str ''d1'')]]\<rparr>"
    by (simp add: example_defs model_defs)
  have race_get: "getObjectMD ?Mrace ''b'' ''k'' ?dn (fst ((), [])) = (Inr plainMD, ())"
    by (simp add: constMetadata_def)
  have race_del: "deleteObjectMD ?Mrace ''b'' ''k'' ?dn () = (Some NoSuchKey, ())"
    by (simp add: constMetadata_def)
  have gone_get: "getObjectMD ?Mgone ''b'' ''k'' ?dn (fst ((), [])) = (Inl NoSuchKey, ())"
    by (simp add: constMetadata_def)
  have down_get: "getObjectMD ?Mdown ''b'' ''k'' ?dn (fst ((), [])) = (Inr plainMD, ())"
    by (simp add: constMetadata_def)
  have down_del: "deleteObjectMD ?Mdown ''b'' ''k'' ?dn () = (Some (OtherError ''ServiceUnavailable''), ())"
    by (simp add: constMetadata_def)
  have down_delm: "deleteObjectMD ?Mdown ''b'' ''k'' ?dm (fst ((), [])) =
                     (Some (OtherError ''ServiceUnavailable''), ())"
    by (simp add: constMetadata_def)
  note n = cleanup_failure_outcome[OF cfg deln]
  note m = cleanup_failure_outcome[OF cfg delm]
  note r1 = n[THEN conjunct2, THEN conjunct2, THEN conjunct1, THEN mp,
              OF conjI[OF ne conjI[OF race_get race_del]]]
  note r2 = n[THEN conjunct2, THEN conjunct1, THEN mp, OF conjI[OF ne gone_get]]
  note r3 = n[THEN conjunct2, THEN conjunct2, THEN conjunct1, THEN mp,
              OF conjI[OF ne conjI[OF down_get down_del]]]
  note r4 = m[THEN conjunct1, THEN mp, OF conjI[OF same down_delm]]
  show ?thesis
    using r1 r2 r3 r4 optn optm by simp
qed

text \<open>
  Claim C3 as stated fails: the master is the null version \<^verbatim>\<open>V1\<close> with data \<^verbatim>\<open>d1\<close>, the
  bucket is suspended and the delete of \<^verbatim>\<open>V1\<close> fails with \<^verbatim>\<open>NoSuchKey\<close>. The operation
  succeeds, and the options it returns still name \<^verbatim>\<open>d1\<close> as data to delete.
\<close>

theorem cleanup_failure_keeps_master_data:
  "delOptions (processVersioningState ''inf'' (getMasterState (Some nullMasterMD)) (Some ''Suspended'')) =
     Some (emptyOptions\<lparr>versionId := Some ''V1''\<rparr>)
   \<and> fst (deleteNullVersionMD (constMetadata None (Inl NoSuchKey) (Some NoSuchKey)) ''b'' ''k''
           (emptyOptions\<lparr>versionId := Some ''V1''\<rparr>) (getMasterState (Some nullMasterMD)) ((), [])) =
       (Some NoSuchKey, Undefined)
   \<and> fst (versioningPreprocessing ''inf'' (constMetadata None (Inl NoSuchKey) (Some NoSuchKey))
           ''b'' suspendedBucket ''k'' (Some nullMasterMD) ((), [])) =
       (None, emptyOptions\<lparr>versionId := Some [], isNull := Some True,
                dataToDelete := Arr [Obj [(''key'', Str ''d1'')]]\<rparr>)
   \<and> dataToDelete (snd (fst (versioningPreprocessing ''inf''
           (constMetadata None (Inl NoSuchKey) (Some NoSuchKey))
           ''b'' suspendedBucket ''k'' (Some nullMasterMD) ((), [])))) \<noteq> Undefined"
  by (simp add: example_defs model_defs effect_defs)

text \<open>
  Claim C5. When the decision has \<^verbatim>\<open>delOptions\<close> and the metadata layer's read (when one
  is made) and delete of the null version succeed, \<^verbatim>\<open>versioningPreprocessing\<close> succeeds
  with the decided options and \<^verbatim>\<open>dataToDelete\<close> set to the data reclaimed. For a null
  version other than the master that is the location read from its record, as an array
  (a single location as the one-element array), and undefined when the record has no
  location (a falsy one): no data, and no error. For the master's own version it is the
  master's \<^verbatim>\<open>objLocation\<close>, and the delete is the only call made. The \<^verbatim>\<open>dataToDelete\<close>
  the decision had was either not set or, in the second case, that same
  \<^verbatim>\<open>objLocation\<close>: nothing is lost. For \<^verbatim>\<open>_getNullVersionsToDelete\<close> on its own: a record
  read with no location gives no data and no error, and equal version ids give the
  master's \<^verbatim>\<open>objLocation\<close> with no call to the metadata layer.
\<close>

theorem delete_success_reclaims:
  assumes "getVersioningConfiguration bucketMD = Some vCfg"
    and "delOptions (processVersioningState nv (getMasterState objMD) (Status vCfg)) = Some d"
  shows "(versionId d \<noteq> mst_versionId (getMasterState objMD)
            \<and> getObjectMD M bucketName objectKey d (fst w) = (Inr versionMD, s')
            \<and> deleteObjectMD M bucketName objectKey d s' = (None, s'')
          \<longrightarrow> versioningPreprocessing nv M bucketName bucketMD objectKey objMD w =
                ((None, (options (processVersioningState nv (getMasterState objMD) (Status vCfg)))
                          \<lparr>dataToDelete :=
                             (if truthy (md_location versionMD)
                              then (if isArray (md_location versionMD)
                                    then md_location versionMD else Arr [md_location versionMD])
                              else Undefined)\<rparr>),
                 (s'', snd w @ [GetObjectMD bucketName objectKey d,
                                DeleteObjectMD bucketName objectKey d])))
         \<and> (versionId d = mst_versionId (getMasterState objMD)
            \<and> deleteObjectMD M bucketName objectKey d (fst w) = (None, s')
          \<longrightarrow> versioningPreprocessing nv M bucketName bucketMD objectKey objMD w =
                ((None, (options (processVersioningState nv (getMasterState objMD) (Status vCfg)))
                          \<lparr>dataToDelete := mst_objLocation (getMasterState objMD)\<rparr>),
                 (s', snd w @ [DeleteObjectMD bucketName objectKey d])))
         \<and> (dataToDelete (options (processVersioningState nv (getMasterState objMD) (Status vCfg)))
               = Undefined
             \<or> versionId d = mst_versionId (getMasterState objMD)
               \<and> dataToDelete (options (processVersioningState nv (getMasterState objMD) (Status vCfg)))
                   = mst_objLocation (getMasterState objMD))
         \<and> (versionId del \<noteq> mst_versionId mst
            \<and> getObjectMD M bucketName objectKey del (fst w) = (Inr versionMD, s')
            \<and> \<not> truthy (md_location versionMD)
          \<longrightarrow> getNullVersionsToDelete M bucketName objectKey del mst w =
                ((None, Undefined), (s', snd w @ [GetObjectMD bucketName objectKey del])))
         \<and> (versionId del = mst_versionId mst
          \<longrightarrow> getNullVersionsToDelete M bucketName objectKey del mst w =
                ((None, mst_objLocation mst), w))"
proof (intro conjI impI)
  note vp = versioningPreprocessing_del[OF assms, of M bucketName objectKey w]
  let ?mst = "getMasterState objMD"
  let ?r = "processVersioningState nv ?mst (Status vCfg)"
  {
    assume "versionId d \<noteq> mst_versionId ?mst
            \<and> getObjectMD M bucketName objectKey d (fst w) = (Inr versionMD, s')
            \<and> deleteObjectMD M bucketName objectKey d s' = (None, s'')"
    then have "deleteNullVersionMD M bucketName objectKey d ?mst w =
                 ((None, if truthy (md_location versionMD)
                         then locationArray (md_location versionMD) else Undefined),
                  (s'', snd w @ [GetObjectMD bucketName objectKey d,
                                 DeleteObjectMD bucketName objectKey d]))"
      using deleteNullVersionMD_read_ok[of d ?mst M bucketName objectKey w versionMD s' None s'']
      by simp
    then show "versioningPreprocessing nv M bucketName bucketMD objectKey objMD w =
                ((None, (options ?r)
                          \<lparr>dataToDelete :=
                             (if truthy (md_location versionMD)
                              then (if isArray (md_location versionMD)
                                    then md_location versionMD else Arr [md_location versionMD])
                              else Undefined)\<rparr>),
                 (s'', snd w @ [GetObjectMD bucketName objectKey d,
                                DeleteObjectMD bucketName objectKey d]))"
      by (simp add: vp deleteNullVersion_def locationArray_def)
  }
  {
    assume "versionId d = mst_versionId ?mst
            \<and> deleteObjectMD M bucketName objectKey d (fst w) = (None, s')"
    then have "deleteNullVersionMD M bucketName objectKey d ?mst w =
                 ((None, mst_objLocation ?mst), (s', snd w @ [DeleteObjectMD bucketName objectKey d]))"
      using deleteNullVersionMD_same_id[of d ?mst M bucketName objectKey w None s']
      by simp
    then show "versioningPreprocessing nv M bucketName bucketMD objectKey objMD w =
                ((None, (options ?r)\<lparr>dataToDelete := mst_objLocation ?mst\<rparr>),
                 (s', snd w @ [DeleteObjectMD bucketName objectKey d]))"
      by (simp add: vp deleteNullVersion_def)
  }
  show "dataToDelete (options ?r) = Undefined
        \<or> versionId d = mst_versionId ?mst \<and> dataToDelete (options ?r) = mst_objLocation ?mst"
  proof (cases "truthy_flag (mst_isNull ?mst)")
    case True
    then show ?thesis
      using delOptions_versionId[OF assms(2)] delOptions_options[OF assms(2)] by simp
  next
    case False
    then show ?thesis
      using delOptions_options[OF assms(2)] by (simp add: emptyOptions_def)
  qed
  {
    assume "versionId del \<noteq> mst_versionId mst
            \<and> getObjectMD M bucketName objectKey del (fst w) = (Inr versionMD, s')
            \<and> \<not> truthy (md_location versionMD)"
    then show "getNullVersionsToDelete M bucketName objectKey del mst w =
                 ((None, Undefined), (s', snd w @ [GetObjectMD bucketName objectKey del]))"
      by (simp add: getNullVersionsToDelete_def metadata_getObjectMD_def)
  }
  {
    assume "versionId del = mst_versionId mst"
    then show "getNullVersionsToDelete M bucketName objectKey del mst w =
                 ((None, mst_objLocation mst), w)"
      by (simp add: getNullVersionsToDelete_def)
  }
qed

text \<open>
  C5 at a versioned master whose null version \<^verbatim>\<open>V0\<close> is read with one location
  \<^verbatim>\<open>n1\<close>, with the array of \<^verbatim>\<open>n1\<close> and \<^verbatim>\<open>n2\<close>, and with a \<^verbatim>\<open>null\<close> location; and at a
  null-version master, with a metadata layer whose reads fail: the master's location is
  the data to delete and the delete is the only call.
\<close>

theorem delete_success_reclaims_witness:
  "versioningPreprocessing ''inf'' (constMetadata None (Inr oldNullMD) None)
       ''b'' suspendedBucket ''k'' (Some versionedMD) ((), []) =
     ((None, emptyOptions\<lparr>versionId := Some [], isNull := Some True,
               dataToDelete := Arr [Obj [(''key'', Str ''n1'')]]\<rparr>),
      ((), [GetObjectMD ''b'' ''k'' (emptyOptions\<lparr>versionId := Some ''V0''\<rparr>),
            DeleteObjectMD ''b'' ''k'' (emptyOptions\<lparr>versionId := Some ''V0''\<rparr>)]))
   \<and> versioningPreprocessing ''inf''
       (constMetadata None
          (Inr (oldNullMD\<lparr>md_location := Arr [Obj [(''key'', Str ''n1'')], Obj [(''key'', Str ''n2'')]]\<rparr>))
          None)
       ''b'' suspendedBucket ''k'' (Some versionedMD) ((), []) =
     ((None, emptyOptions\<lparr>versionId := Some [], isNull := Some True,
               dataToDelete := Arr [Obj [(''key'', Str ''n1'')], Obj [(''key'', Str ''n2'')]]\<rparr>),
      ((), [GetObjectMD ''b'' ''k'' (emptyOptions\<lparr>versionId := Some ''V0''\<rparr>),
            DeleteObjectMD ''b'' ''k'' (emptyOptions\<lparr>versionId := Some ''V0''\<rparr>)]))
   \<and> versioningPreprocessing ''inf'' (constMetadata None (Inr (oldNullMD\<lparr>md_location := Null\<rparr>)) None)
       ''b'' suspendedBucket ''k'' (Some versionedMD) ((), []) =
     ((None, emptyOptions\<lparr>versionId := Some [], isNull := Some True\<rparr>),
      ((), [GetObjectMD ''b'' ''k'' (emptyOptions\<lparr>versionId := Some ''V0''\<rparr>),
            DeleteObjectMD ''b'' ''k'' (emptyOptions\<lparr>versionId := Some ''V0''\<rparr>)]))
   \<and> versioningPreprocessing ''inf'' (constMetadata None (Inl NoSuchKey) None)
       ''b'' suspendedBucket ''k'' (Some nullMasterMD) ((), []) =
     ((None, emptyOptions\<lparr>versionId := Some [], isNull := Some True,
               dataToDelete := Arr [Obj [(''key'', Str ''d1'')]]\<rparr>),
      ((), [DeleteObjectMD ''b'' ''k'' (emptyOptions\<lparr>versionId := Some ''V1''\<rparr>)]))
   \<and> getNullVersionsToDelete (constMetadata None (Inr (oldNullMD\<lparr>md_location := Null\<rparr>)) None)
       ''b'' ''k'' (emptyOptions\<lparr>versionId := Some ''V0''\<rparr>) (getMasterState (Some versionedMD))
       ((), []) =
     ((None, Undefined), ((), [GetObjectMD ''b'' ''k'' (emptyOptions\<lparr>versionId := Some ''V0''\<rparr>)]))
   \<and> getNullVersionsToDelete (constMetadata None (Inl NoSuchKey) None)
       ''b'' ''k'' (emptyOptions\<lparr>versionId := Some ''V1''\<rparr>) (getMasterState (Some nullMasterMD))
       ((), []) =
     ((None, Arr [Obj [(''key'', Str ''d1'')]]), ((), []))"
proof -
  let ?dn = "emptyOptions\<lparr>versionId := Some ''V0''\<rparr>"
  let ?dm = "emptyOptions\<lparr>versionId := Some ''V1''\<rparr>"
  let ?sus = "\<lparr>Status = Some ''Suspended''\<rparr>"
  let ?two = "oldNullMD\<lparr>md_location := Arr [Obj [(''key'', Str ''n1'')], Obj [(''key'', Str ''n2'')]]\<rparr>"
  let ?none = "oldNullMD\<lparr>md_location := Null\<rparr>"
  let ?Mone = "constMetadata None (Inr oldNullMD) None"
  let ?Mtwo = "constMetadata None (Inr ?two) None"
  let ?Mnone = "constMetadata None (Inr ?none) None"
  let ?Mgone = "constMetadata None (Inl NoSuchKey) None"
  have cfg: "getVersioningConfiguration suspendedBucket = Some ?sus"
    by (simp add: suspendedBucket_def)
  have deln: "delOptions (processVersioningState ''inf'' (getMasterState (Some versionedMD))
                (Status ?sus)) = Some ?dn"
    by (simp add: example_defs model_defs)
  have delm: "delOptions (processVersioningState ''inf'' (getMasterState (Some nullMasterMD))
                (Status ?sus)) = Some ?dm"
    by (simp add: example_defs model_defs)
  have ne: "versionId ?dn \<noteq> mst_versionId (getMasterState (Some versionedMD))"
    by (simp add: example_defs model_defs)
  have same: "versionId ?dm = mst_versionId (getMasterState (Some nullMasterMD))"
    by (simp add: example_defs model_defs)
  have optn: "options (processVersioningState ''inf'' (getMasterState (Some versionedMD))
                (Status ?sus)) = emptyOptions\<lparr>versionId := Some [], isNull := Some True\<rparr>"
    by (simp add: example_defs model_defs)
  have optm: "options (processVersioningState ''inf'' (getMasterState (Some nullMasterMD))
                (Status ?sus)) =
              emptyOptions\<lparr>versionId := Some [], isNull := Some True,
                           dataToDelete := Arr [Obj [(''key'', Str ''d1'')]]\<rparr>"
    by (simp add: example_defs model_defs)
  have locm: "mst_objLocation (getMasterState (Some nullMasterMD)) = Arr [Obj [(''key'', Str ''d1'')]]"
    by (simp add: example_defs model_defs)
  have one_get: "getObjectMD ?Mone ''b'' ''k'' ?dn (fst ((), [])) = (Inr oldNullMD, ())"
    by (simp add: constMetadata_def)
  have one_del: "deleteObjectMD ?Mone ''b'' ''k'' ?dn () = (None, ())"
    by (simp add: constMetadata_def)
  have two_get: "getObjectMD ?Mtwo ''b'' ''k'' ?dn (fst ((), [])) = (Inr ?two, ())"
    by (simp add: constMetadata_def)
  have two_del: "deleteObjectMD ?Mtwo ''b'' ''k'' ?dn () = (None, ())"
    by (simp add: constMetadata_def)
  have none_get: "getObjectMD ?Mnone ''b'' ''k'' ?dn (fst ((), [])) = (Inr ?none, ())"
    by (simp add: constMetadata_def)
  have none_del: "deleteObjectMD ?Mnone ''b'' ''k'' ?dn () = (None, ())"
    by (simp add: constMetadata_def)
  have none_loc: "\<not> truthy (md_location ?none)"
    by simp
  have gone_del: "deleteObjectMD ?Mgone ''b'' ''k'' ?dm (fst ((), [])) = (None, ())"
    by (simp add: constMetadata_def)
  note n = delete_success_reclaims[OF cfg deln]
  note m = delete_success_reclaims[OF cfg delm]
  note r1 = n[THEN conjunct1, THEN mp, OF conjI[OF ne conjI[OF one_get one_del]]]
  note r2 = n[THEN conjunct1, THEN mp, OF conjI[OF ne conjI[OF two_get two_del]]]
  note r3 = n[THEN conjunct1, THEN mp, OF conjI[OF ne conjI[OF none_get none_del]]]
  note r4 = m[THEN conjunct2, THEN conjunct1, THEN mp, OF conjI[OF same gone_del]]
  note r5 = n[THEN conjunct2, THEN conjunct2, THEN conjunct2, THEN conjunct1, THEN mp,
              OF conjI[OF ne conjI[OF none_get none_loc]]]
  note r6 = m[where M = ?Mgone and bucketName = "''b''" and objectKey = "''k''" and w = "((), [])",
              THEN conjunct2, THEN conjunct2, THEN conjunct2, THEN conjunct2, THEN mp, OF same]
  have q1: "versioningPreprocessing ''inf'' ?Mone ''b'' suspendedBucket ''k'' (Some versionedMD) ((), []) =
     ((None, emptyOptions\<lparr>versionId := Some [], isNull := Some True,
               dataToDelete := Arr [Obj [(''key'', Str ''n1'')]]\<rparr>),
      ((), [GetObjectMD ''b'' ''k'' ?dn, DeleteObjectMD ''b'' ''k'' ?dn]))"
    using r1 optn by (simp add: oldNullMD_def)
  have q2: "versioningPreprocessing ''inf'' ?Mtwo ''b'' suspendedBucket ''k'' (Some versionedMD) ((), []) =
     ((None, emptyOptions\<lparr>versionId := Some [], isNull := Some True,
               dataToDelete := Arr [Obj [(''key'', Str ''n1'')], Obj [(''key'', Str ''n2'')]]\<rparr>),
      ((), [GetObjectMD ''b'' ''k'' ?dn, DeleteObjectMD ''b'' ''k'' ?dn]))"
    using r2 optn by simp
  have q3: "versioningPreprocessing ''inf'' ?Mnone ''b'' suspendedBucket ''k'' (Some versionedMD) ((), []) =
     ((None, emptyOptions\<lparr>versionId := Some [], isNull := Some True\<rparr>),
      ((), [GetObjectMD ''b'' ''k'' ?dn, DeleteObjectMD ''b'' ''k'' ?dn]))"
    using r3 optn by (simp add: emptyOptions_def)
  have q4: "versioningPreprocessing ''inf'' ?Mgone ''b'' suspendedBucket ''k'' (Some nullMasterMD) ((), []) =
     ((None, emptyOptions\<lparr>versionId := Some [], isNull := Some True,
               dataToDelete := Arr [Obj [(''key'', Str ''d1'')]]\<rparr>),
      ((), [DeleteObjectMD ''b'' ''k'' ?dm]))"
    using r4 optm locm by simp
  have q6: "getNullVersionsToDelete ?Mgone ''b'' ''k'' ?dm (getMasterState (Some nullMasterMD)) ((), []) =
     ((None, Arr [Obj [(''key'', Str ''d1'')]]), ((), []))"
    using r6 locm by simp
  show ?thesis
    using q1 q2 q3 q4 r5 q6 by simp
qed

subsection \<open>The decision for a delete\<close>

text \<open>
  Claim C6. In a bucket with a versioning configuration, a request to delete the
  version \<^verbatim>\<open>'null'\<close> of an object whose record has a \<^verbatim>\<open>versionId\<close>, is not a null version
  and refers to no null version fails with \<^verbatim>\<open>NoSuchKey\<close>: no options are produced.
\<close>

theorem delete_null_without_null_version:
  assumes "getVersioningConfiguration bucketMD \<noteq> None"
    and "md_versionId objMD \<noteq> None"
    and "\<not> truthy_flag (md_isNull objMD)"
    and "\<not> truthy_str (md_nullVersionId objMD)"
  shows "preprocessingVersioningDelete bucketName bucketMD objMD (Some ''null'') = Inl NoSuchKey"
  using assms by (auto simp: preprocessingVersioningDelete_def truthy_str_def)

text \<open>
  C6 at a plain version \<^verbatim>\<open>V2\<close> in an enabled bucket.
\<close>

theorem delete_null_without_null_version_witness:
  "preprocessingVersioningDelete ''b'' enabledBucket
     (plainMD\<lparr>md_versionId := Some ''V2''\<rparr>) (Some ''null'') = Inl NoSuchKey"
proof -
  have h1: "getVersioningConfiguration enabledBucket \<noteq> None"
    by (simp add: enabledBucket_def)
  have h2: "md_versionId (plainMD\<lparr>md_versionId := Some ''V2''\<rparr>) \<noteq> None"
    by simp
  have h3: "\<not> truthy_flag (md_isNull (plainMD\<lparr>md_versionId := Some ''V2''\<rparr>))"
    by (simp add: plainMD_def truthy_flag_def)
  have h4: "\<not> truthy_str (md_nullVersionId (plainMD\<lparr>md_versionId := Some ''V2''\<rparr>))"
    by (simp add: plainMD_def truthy_str_def)
  show ?thesis
    using delete_null_without_null_version[OF h1 h2 h3 h4] by simp
qed

subsection \<open>Overwriting a version\<close>

text \<open>
  Claim C8. When the record has \<^verbatim>\<open>restoreRequestedDays\<close>, \<^verbatim>\<open>overwritingVersioning\<close> sets
  \<^verbatim>\<open>restoreCompletedAt\<close> to \<^verbatim>\<open>new Date(now)\<close> and \<^verbatim>\<open>restoreWillExpireAt\<close> to the date
  \<open>now + days * 86400000\<close>: whole days as milliseconds, nothing rounded. Both are the
  dates of exactly these time values whenever the time values are in the range of
  \<^verbatim>\<open>Date\<close>. The options returned are the record's \<^verbatim>\<open>versionId\<close> (an empty one as
  undefined, by \<^verbatim>\<open>|| undefined\<close>), \<^verbatim>\<open>isNull\<close> and \<^verbatim>\<open>nullVersionId\<close>, and nothing else.
\<close>

theorem overwrite_restore_dates:
  assumes "md_archive objMD = Some a"
    and "ar_restoreRequestedDays a = Some days"
  shows "archive (snd (overwritingVersioning objMD params now)) =
           Some \<lparr>archiveInfo = ar_archiveInfo a,
                 restoreRequestedAt = ar_restoreRequestedAt a,
                 restoreRequestedDays = Some days,
                 restoreCompletedAt = newDate now,
                 restoreWillExpireAt = newDate (now + days * 86400000)\<rparr>
         \<and> (\<bar>now\<bar> \<le> 8640000000000000 \<and> \<bar>now + days * 86400000\<bar> \<le> 8640000000000000 \<longrightarrow>
              newDate now = Date now
              \<and> newDate (now + days * 86400000) = Date (now + days * 86400000))
         \<and> fst (overwritingVersioning objMD params now) =
             emptyOptions\<lparr>versionId := (if truthy_str (md_versionId objMD)
                                          then md_versionId objMD else None),
                          isNull := md_isNull objMD,
                          nullVersionId := md_nullVersionId objMD\<rparr>"
  using assms by (simp add: overwritingVersioning_def Let_def oneDay_def newDate_def)

text \<open>
  C8 at a record restored for 7 days at time 1700000000000: it expires 604800000 ms
  later.
\<close>

theorem overwrite_restore_dates_witness:
  "overwritingVersioning archivedMD emptyParams 1700000000000 =
     (emptyOptions\<lparr>versionId := Some ''V1'', isNull := Some True\<rparr>,
      \<lparr>creationTime = Str ''t0'', lastModifiedDate = Str ''t1'',
       updateMicroVersionId = Some True,
       archive = Some \<lparr>archiveInfo = Obj [(''archiveId'', Str ''a1'')],
                        restoreRequestedAt = Str ''t2'',
                        restoreRequestedDays = Some 7,
                        restoreCompletedAt = Date 1700000000000,
                        restoreWillExpireAt = Date 1700604800000\<rparr>\<rparr>)"
proof -
  let ?a = "\<lparr>ar_archiveInfo = Obj [(''archiveId'', Str ''a1'')],
             ar_restoreRequestedAt = Str ''t2'', ar_restoreRequestedDays = Some 7\<rparr>"
  have h1: "md_archive archivedMD = Some ?a"
    by (simp add: archivedMD_def)
  have h2: "ar_restoreRequestedDays ?a = Some 7"
    by simp
  show ?thesis
    using overwrite_restore_dates[OF h1 h2, of emptyParams 1700000000000]
    by (simp add: overwritingVersioning_def Let_def oneDay_def newDate_def archivedMD_def
          emptyParams_def example_defs model_defs)
qed

subsection \<open>Decoding a version id\<close>

text \<open>
  Claim C10. Whatever the codec does (the result does not depend on it, also when it
  throws on every input), \<^verbatim>\<open>decodeVID\<close> returns \<^verbatim>\<open>'null'\<close> for \<^verbatim>\<open>'null'\<close>, and
  \<^verbatim>\<open>decodeVersionId\<close> returns undefined, not an error, when there is no query or the query
  has no \<^verbatim>\<open>versionId\<close> (or an empty one).
\<close>

theorem decode_null_and_absent:
  "decodeVID decode ''null'' = Inr ''null''
   \<and> decodeVersionId decode None = Inr None
   \<and> (\<not> truthy_str (q ''versionId'') \<longrightarrow> decodeVersionId decode (Some q) = Inr None)"
  by (auto simp: decodeVID_def decodeVersionId_def truthy_str_def split: option.splits)

text \<open>
  C10 with a codec that throws on every input.
\<close>

theorem decode_null_and_absent_witness:
  "decodeVID (\<lambda>vid. Throws) ''null'' = Inr ''null''
   \<and> decodeVersionId (\<lambda>vid. Throws) None = Inr None
   \<and> decodeVersionId (\<lambda>vid. Throws) (Some [''prefix'' \<mapsto> ''a/'']) = Inr None"
proof -
  have h: "\<not> truthy_str ([''prefix'' \<mapsto> ''a/''] ''versionId'')"
    by (simp add: truthy_str_def)
  show ?thesis
    using decode_null_and_absent[of "\<lambda>vid. Throws" "[''prefix'' \<mapsto> ''a/'']"] h
    by simp
qed

end
